theory Spec2Isabelle
  imports Main "HOL-Library.Word"
begin

section \<open>Data model\<close>

text \<open>
  The controllers of the files manager (\<^verbatim>\<open>FilesController.js\<close> and the
  \<^verbatim>\<open>UsersController\<close> class) are embedded as functions over an explicit store: the
  users and files collections of the database, the session store, the content directory on
  disk and the two job queues. A controller takes the store and a request and returns the
  store it leaves behind together with the response it sends.
\<close>

text \<open>A \<^verbatim>\<open>parentId\<close> is the number \<^verbatim>\<open>0\<close> (the root) or the id of a file.\<close>

datatype parent = Root | Parent string

text \<open>
  The value of \<^verbatim>\<open>Number(request.query.page)\<close>: \<^verbatim>\<open>NaN\<close> for a missing or
  non-numeric parameter, an integer otherwise. The integers are those of the signed 32-bit
  range, on which the arithmetic of the controller on doubles (\<^verbatim>\<open>page * 20\<close>) is exact.
  Larger, fractional and infinite values are outside the model.
\<close>

datatype jsnum = NaN | Num "32 word"

record user =
  u_id :: string
  u_email :: string
  u_password :: string

record filedoc =
  f_id :: string
  f_userId :: string
  f_name :: string
  f_type :: string
  f_isPublic :: bool
  f_parentId :: parent
  f_localPath :: "string option"

text \<open>The document a response carries for a file: \<^verbatim>\<open>localPath\<close> is not part of it.\<close>

record fileview =
  v_id :: string
  v_userId :: string
  v_name :: string
  v_type :: string
  v_isPublic :: bool
  v_parentId :: parent

text \<open>
  A job put on a queue with \<^verbatim>\<open>add\<close>: \<^verbatim>\<open>{}\<close>, \<^verbatim>\<open>{ userId }\<close> or
  \<^verbatim>\<open>{ fileId, userId }\<close>.
\<close>

record job =
  job_fileId :: "string option"
  job_userId :: "string option"

text \<open>
  The disk maps a path and a size selector (\<open>None\<close> for the original content) to bytes.
\<close>

record store =
  users :: "user list"
  sessions :: "(string \<times> string) list"
  files :: "filedoc list"
  disk :: "((string \<times> string option) \<times> string) list"
  fileQueue :: "job list"
  userQueue :: "job list"

record reqbody =
  b_name :: "string option"
  b_type :: "string option"
  b_parentId :: "parent option"
  b_isPublic :: "bool option"
  b_data :: "string option"
  b_email :: "string option"
  b_password :: "string option"

record request =
  token :: "string option"
  param_id :: string
  q_parentId :: "string option"
  q_page :: jsnum
  q_size :: "string option"
  body :: reqbody

record fileParams =
  fp_name :: string
  fp_type :: string
  fp_parentId :: parent
  fp_isPublic :: bool
  fp_data :: "string option"

text \<open>
  What \<^verbatim>\<open>send\<close> is given: \<open>ErrorObj m\<close> is the object \<^verbatim>\<open>{ error: m }\<close> and
  \<open>Plain m\<close> is the value \<^verbatim>\<open>m\<close> sent as it is. \<open>Data bytes t\<close> is a body of raw
  bytes sent with the header \<^verbatim>\<open>Content-Type: t\<close>.
\<close>

datatype payload =
    ErrorObj string
  | Plain string
  | FileDoc fileview
  | FileList "fileview list"
  | UserDoc string string
  | Data string string

text \<open>
  \<open>Reply code p\<close> is \<^verbatim>\<open>response.status(code).send(p)\<close>. \<open>Unhandled\<close> is a handler whose
  promise is rejected: the routes do not catch it and no response is sent.
\<close>

datatype outcome = Reply nat payload | Unhandled

text \<open>
  The parts of the environment the controllers call that are not code of the repository, and
  \<^verbatim>\<open>basicUtils.isValidId\<close>, which the controllers use as a guard and which is taken as a
  parameter: \<^verbatim>\<open>mime.contentType\<close>, base64 decoding, \<^verbatim>\<open>sha1\<close> and the environment
  variable \<^verbatim>\<open>FOLDER_PATH\<close>. Neither the spec nor the source says what the database does
  with a \<^verbatim>\<open>$skip\<close> stage whose count is negative or \<^verbatim>\<open>NaN\<close> (\<open>None\<close> for \<^verbatim>\<open>NaN\<close>), so
  that is a parameter too: \<open>skipOther\<close> gives the documents such a stage passes on, or
  \<open>None\<close> when the database refuses the pipeline.
\<close>

record env =
  isValidId :: "string option \<Rightarrow> bool"
  contentType :: "string \<Rightarrow> string"
  base64_decode :: "string \<Rightarrow> string"
  sha1 :: "string \<Rightarrow> string"
  env_FOLDER_PATH :: "string option"
  skipOther :: "int option \<Rightarrow> filedoc list \<Rightarrow> filedoc list option"

text \<open>
  What the outside world decides during one request: the id the database assigns to an
  inserted document, the random name of a content file, and whether the content write or the
  insertion fails, with the code and message \<^verbatim>\<open>saveFile\<close> then reports.
\<close>

datatype fault = NoFault | WriteFault | InsertFault

record world =
  w_insertedId :: string
  w_uuid :: string
  w_fault :: fault
  w_code :: nat
  w_msg :: string

section \<open>Helpers of the repository that the controllers call\<close>

text \<open>JavaScript's \<^verbatim>\<open>!x\<close> on a value that is \<^verbatim>\<open>null\<close>, \<^verbatim>\<open>undefined\<close> or a string.\<close>

definition falsy :: "string option \<Rightarrow> bool" where
  "falsy x = (x = None \<or> x = Some [])"

text \<open>\<^verbatim>\<open>process.env.FOLDER_PATH || '/tmp/files_manager'\<close>\<close>

definition FOLDER_PATH :: "env \<Rightarrow> string" where
  "FOLDER_PATH E =
     (if falsy (env_FOLDER_PATH E) then ''/tmp/files_manager''
      else (case env_FOLDER_PATH E of Some p \<Rightarrow> p | None \<Rightarrow> ''/tmp/files_manager''))"

text \<open>
  Modelled from the spec: \<^verbatim>\<open>userUtils.getUserIdAndKey\<close> is not under src/. Section 4.4:
  the token carried by the request is resolved through the Session Store; a missing or
  expired token resolves to nothing.
\<close>

definition getUserIdAndKey :: "store \<Rightarrow> request \<Rightarrow> string option" where
  "getUserIdAndKey st req =
     (case token req of None \<Rightarrow> None | Some t \<Rightarrow> map_of (sessions st) t)"

text \<open>
  Modelled from the spec: \<^verbatim>\<open>userUtils.getUser\<close> is not under src/. Section 2: the Identity
  Store exposes lookup by filter; the controllers only look a user up by id.
\<close>

definition getUser :: "store \<Rightarrow> string \<Rightarrow> user option" where
  "getUser st uid = find (\<lambda>u. u_id u = uid) (users st)"

text \<open>
  \<^verbatim>\<open>fileUtils.getFile\<close> is not under src/. Section 4.3 of the spec: \<^verbatim>\<open>get(filter)\<close>
  returns a file or nothing; a lookup scoped to an id and an owner returns nothing if the
  file belongs to another user. The controllers use the two filters \<^verbatim>\<open>{ _id }\<close> and
  \<^verbatim>\<open>{ _id, userId }\<close>.
\<close>

datatype filter = ById string | ByIdOwner string string

text \<open>
  Modelled from the spec: whether a file passes a filter of \<^verbatim>\<open>fileUtils.getFile\<close>
  (section 4.3): every field the filter names is equal in the file.
\<close>

fun matches :: "filter \<Rightarrow> filedoc \<Rightarrow> bool" where
  "matches (ById i) f = (f_id f = i)"
| "matches (ByIdOwner i u) f = (f_id f = i \<and> f_userId f = u)"

text \<open>
  Modelled from the spec: \<^verbatim>\<open>fileUtils.getFile\<close> itself (section 4.3), the first file of
  the collection that passes the filter, or nothing.
\<close>

definition getFile_db :: "store \<Rightarrow> filter \<Rightarrow> filedoc option" where
  "getFile_db st q = find (matches q) (files st)"

text \<open>
  Modelled from the spec: \<^verbatim>\<open>fileUtils.processFile\<close> is not under src/. Section 6: the
  metadata output is \<^verbatim>\<open>{ id, userId, name, type, isPublic, parentId }\<close>.
\<close>

definition processFile :: "filedoc \<Rightarrow> fileview" where
  "processFile f =
     \<lparr>v_id = f_id f, v_userId = f_userId f, v_name = f_name f, v_type = f_type f,
      v_isPublic = f_isPublic f, v_parentId = f_parentId f\<rparr>"

text \<open>
  Modelled from the spec: \<^verbatim>\<open>fileUtils.isOwnerAndPublic\<close> is not under src/. Section 4.4,
  \<^verbatim>\<open>authorizeRead(file, requesterId)\<close>: true iff the file is public or its owner is the
  requester.
\<close>

definition isOwnerAndPublic :: "filedoc \<Rightarrow> string option \<Rightarrow> bool" where
  "isOwnerAndPublic f requester = (f_isPublic f \<or> requester = Some (f_userId f))"

text \<open>
  Modelled from the spec: \<^verbatim>\<open>fileUtils.getFileData\<close> is not under src/. Section 4.7, step
  4: the bytes are read from \<^verbatim>\<open>localPath\<close>, or from a size variant of it; bytes missing
  on disk are reported the same as a missing file.
\<close>

definition getFileData :: "store \<Rightarrow> filedoc \<Rightarrow> string option \<Rightarrow> (nat \<times> string) + string" where
  "getFileData st f sz =
     (case f_localPath f of
        None \<Rightarrow> Inl (404, ''Not found'')
      | Some p \<Rightarrow>
          (case map_of (disk st) (p, sz) of
             None \<Rightarrow> Inl (404, ''Not found'')
           | Some bytes \<Rightarrow> Inr bytes))"

text \<open>
  Modelled from the spec: what rule 4 of section 4.1 asks of a non-zero \<^verbatim>\<open>parentId\<close>, that
  it resolves to an existing file whose type is folder.
\<close>

definition resolvesToFolder :: "store \<Rightarrow> string \<Rightarrow> bool" where
  "resolvesToFolder st p =
     (case getFile_db st (ById p) of None \<Rightarrow> False | Some f \<Rightarrow> f_type f = ''folder'')"

text \<open>
  Modelled from the spec: \<^verbatim>\<open>fileUtils.validateBody\<close> is not under src/. Section 4.1: the
  four rules, checked in order, the first failure winning, on the payload and the metadata
  snapshot (which rule 4 reads); \<^verbatim>\<open>parentId\<close> defaults to 0 and \<^verbatim>\<open>isPublic\<close> to
  false.
\<close>

definition validateBody :: "store \<Rightarrow> request \<Rightarrow> string + fileParams" where
  "validateBody st req =
     (let b = body req;
          parentId = (case b_parentId b of None \<Rightarrow> Root | Some p \<Rightarrow> p);
          isPublic = (case b_isPublic b of None \<Rightarrow> False | Some v \<Rightarrow> v)
      in case b_name b of
           None \<Rightarrow> Inl ''Missing name''
         | Some name \<Rightarrow>
             if name = [] then Inl ''Missing name''
             else (case b_type b of
                     None \<Rightarrow> Inl ''Missing type''
                   | Some type \<Rightarrow>
                       if type \<noteq> ''folder'' \<and> type \<noteq> ''file'' \<and> type \<noteq> ''image''
                       then Inl ''Missing type''
                       else if type \<noteq> ''folder'' \<and> b_data b = None then Inl ''Missing data''
                       else (case parentId of
                               Root \<Rightarrow>
                                 Inr \<lparr>fp_name = name, fp_type = type, fp_parentId = parentId,
                                      fp_isPublic = isPublic, fp_data = b_data b\<rparr>
                             | Parent p \<Rightarrow>
                                 if \<not> resolvesToFolder st p then Inl ''Parent not found''
                                 else Inr \<lparr>fp_name = name, fp_type = type,
                                           fp_parentId = parentId, fp_isPublic = isPublic,
                                           fp_data = b_data b\<rparr>)))"

text \<open>
  Modelled from the spec: \<^verbatim>\<open>fileUtils.saveFile\<close> is not under src/. Sections 4.2, 4.3 and
  7: for a folder only the metadata record is created; otherwise the decoded bytes are
  written under a unique name in the content directory before the metadata record is
  committed. A failed write leaves no metadata record; a failed commit leaves the content
  behind. The result is an error with its status code, or the document of the new file.
\<close>

definition saveFile ::
  "env \<Rightarrow> world \<Rightarrow> store \<Rightarrow> string \<Rightarrow> fileParams \<Rightarrow> string \<Rightarrow>
   store \<times> ((nat \<times> string) + fileview)" where
  "saveFile E w st userId fp folderPath =
     (if fp_type fp = ''folder'' then
        (if w_fault w = InsertFault then (st, Inl (w_code w, w_msg w))
         else
           (let f = \<lparr>f_id = w_insertedId w, f_userId = userId, f_name = fp_name fp,
                     f_type = fp_type fp, f_isPublic = fp_isPublic fp,
                     f_parentId = fp_parentId fp, f_localPath = None\<rparr>
            in (st\<lparr>files := files st @ [f]\<rparr>, Inr (processFile f))))
      else
        (case fp_data fp of
           None \<Rightarrow> (st, Inl (w_code w, w_msg w))
         | Some d \<Rightarrow>
             if w_fault w = WriteFault then (st, Inl (w_code w, w_msg w))
             else
               (let path = folderPath @ ''/'' @ w_uuid w;
                    st1 = st\<lparr>disk := disk st @ [((path, None), base64_decode E d)]\<rparr>
                in if w_fault w = InsertFault then (st1, Inl (w_code w, w_msg w))
                   else
                     (let f = \<lparr>f_id = w_insertedId w, f_userId = userId,
                               f_name = fp_name fp, f_type = fp_type fp,
                               f_isPublic = fp_isPublic fp, f_parentId = fp_parentId fp,
                               f_localPath = Some path\<rparr>
                      in (st1\<lparr>files := files st1 @ [f]\<rparr>, Inr (processFile f))))))"

text \<open>
  Modelled from the spec: the update of \<^verbatim>\<open>updateVisibility(id, owner, isPublic)\<close>
  (section 4.3), which sets the flag of the file with this id and owner.
\<close>

fun setPublic :: "string \<Rightarrow> string \<Rightarrow> bool \<Rightarrow> filedoc list \<Rightarrow> filedoc list" where
  "setPublic i u v [] = []"
| "setPublic i u v (f # fs) =
     (if matches (ByIdOwner i u) f then f\<lparr>f_isPublic := v\<rparr> # fs
      else f # setPublic i u v fs)"

text \<open>\<^verbatim>\<open>fileQueue.add(job)\<close>\<close>

definition addFileQueue :: "job \<Rightarrow> store \<Rightarrow> store" where
  "addFileQueue j st = st\<lparr>fileQueue := fileQueue st @ [j]\<rparr>"

text \<open>
  Modelled from the spec: \<^verbatim>\<open>fileUtils.publishUnpublish\<close> is not under src/. Sections 4.3
  and 4.4: the token is authenticated, and \<^verbatim>\<open>updateVisibility(id, owner, isPublic)\<close>
  succeeds only for the owner of the file; anything else is reported as not found. Section
  4.6: a thumbnail job with the id of the file and of its owner is triggered when the
  updated file is an image.
\<close>

definition publishUnpublish ::
  "env \<Rightarrow> store \<Rightarrow> request \<Rightarrow> bool \<Rightarrow> store \<times> ((nat \<times> string) + (nat \<times> fileview))" where
  "publishUnpublish E st req setPublish =
     (case getUserIdAndKey st req of
        None \<Rightarrow> (st, Inl (401, ''Unauthorized''))
      | Some uid \<Rightarrow>
          (case getUser st uid of
             None \<Rightarrow> (st, Inl (401, ''Unauthorized''))
           | Some user \<Rightarrow>
               (case getFile_db st (ByIdOwner (param_id req) uid) of
                  None \<Rightarrow> (st, Inl (404, ''Not found''))
                | Some f \<Rightarrow>
                    (let st1 = st\<lparr>files := setPublic (param_id req) uid setPublish
                                             (files st)\<rparr>;
                         st2 = (if f_type f = ''image''
                                then addFileQueue
                                       \<lparr>job_fileId = Some (f_id f),
                                        job_userId = Some (f_userId f)\<rparr> st1
                                else st1)
                     in (st2, Inr (200, processFile (f\<lparr>f_isPublic := setPublish\<rparr>)))))))"

text \<open>The stages of the aggregation pipeline that \<^verbatim>\<open>getIndex\<close> builds.\<close>

text \<open>
  The count of a \<^verbatim>\<open>$skip\<close> stage is a number, \<open>None\<close> for \<^verbatim>\<open>NaN\<close>; the count of the
  \<^verbatim>\<open>$limit\<close> stage is the constant 20 of the controller.
\<close>

datatype stage = Match parent | Skip "int option" | Limit nat

text \<open>
  Modelled from the spec: one \<^verbatim>\<open>$skip\<close> stage (section 4.5): a count that is a
  non-negative integer is the offset into the documents. Any other count is left to the
  parameter \<open>skipOther\<close>.
\<close>

definition skipStage :: "env \<Rightarrow> int option \<Rightarrow> filedoc list \<Rightarrow> filedoc list option" where
  "skipStage E c fs =
     (case c of
        None \<Rightarrow> skipOther E c fs
      | Some n \<Rightarrow> if 0 \<le> n then Some (drop (nat n) fs) else skipOther E c fs)"

text \<open>
  Modelled from the spec: the pipeline run on the files collection (section 4.5): the
  children of a parent in insertion order, an offset, a page size.
\<close>

fun aggregate :: "env \<Rightarrow> stage list \<Rightarrow> filedoc list \<Rightarrow> filedoc list option" where
  "aggregate E [] fs = Some fs"
| "aggregate E (Match p # ss) fs = aggregate E ss (filter (\<lambda>f. f_parentId f = p) fs)"
| "aggregate E (Skip c # ss) fs =
     (case skipStage E c fs of None \<Rightarrow> None | Some fs1 \<Rightarrow> aggregate E ss fs1)"
| "aggregate E (Limit n # ss) fs = aggregate E ss (take n fs)"

text \<open>
  Modelled from the spec: \<^verbatim>\<open>fileUtils.getFilesOfParentId\<close> is not under src/. Section 4.5:
  it runs the pipeline it is given on the files collection.
\<close>

definition getFilesOfParentId ::
  "env \<Rightarrow> store \<Rightarrow> stage list \<Rightarrow> filedoc list option" where
  "getFilesOfParentId E st pipeline = aggregate E pipeline (files st)"

section \<open>FilesController\<close>

text \<open>\<^verbatim>\<open>fileParams.parentId !== 0 && !basicUtils.isValidId(fileParams.parentId)\<close>\<close>

definition parentIdInvalid :: "env \<Rightarrow> fileParams \<Rightarrow> bool" where
  "parentIdInvalid E fp =
     (case fp_parentId fp of Root \<Rightarrow> False | Parent p \<Rightarrow> \<not> isValidId E (Some p))"

text \<open>
  \<^verbatim>\<open>postUpload\<close>. \<^verbatim>\<open>ObjectId(userId)\<close> of a \<^verbatim>\<open>null\<close> user id is a fresh id, which
  no user has, so the lookup of the user finds nothing. The session store holds the ids of
  users only, as sign-in wrote them, so \<^verbatim>\<open>ObjectId\<close> is the identity on them.
\<close>

definition postUpload :: "env \<Rightarrow> world \<Rightarrow> store \<Rightarrow> request \<Rightarrow> store \<times> outcome" where
  "postUpload E w st req =
     (let userId = getUserIdAndKey st req in
      if \<not> isValidId E userId then (st, Reply 401 (ErrorObj ''Unauthorized''))
      else
        (let st1 = (if falsy userId \<and> b_type (body req) = Some ''image''
                    then addFileQueue \<lparr>job_fileId = None, job_userId = None\<rparr> st else st)
         in case userId of
              None \<Rightarrow> (st1, Reply 401 (ErrorObj ''Unauthorized''))
            | Some uid \<Rightarrow>
                (case getUser st1 uid of
                   None \<Rightarrow> (st1, Reply 401 (ErrorObj ''Unauthorized''))
                 | Some user \<Rightarrow>
                     (case validateBody st1 req of
                        Inl validationError \<Rightarrow> (st1, Reply 400 (ErrorObj validationError))
                      | Inr fp \<Rightarrow>
                          if parentIdInvalid E fp
                          then (st1, Reply 400 (ErrorObj ''Parent not found''))
                          else
                            (case saveFile E w st1 uid fp (FOLDER_PATH E) of
                               (st2, Inl (code, error)) \<Rightarrow>
                                 (if b_type (body req) = Some ''image''
                                  then addFileQueue
                                         \<lparr>job_fileId = None, job_userId = Some uid\<rparr> st2
                                  else st2,
                                  Reply code (Plain error))
                             | (st2, Inr newFile) \<Rightarrow>
                                 (if fp_type fp = ''image''
                                  then addFileQueue
                                         \<lparr>job_fileId = Some (v_id newFile),
                                          job_userId = Some (v_userId newFile)\<rparr> st2
                                  else st2,
                                  Reply 201 (FileDoc newFile)))))))"

definition getShow :: "env \<Rightarrow> store \<Rightarrow> request \<Rightarrow> outcome" where
  "getShow E st req =
     (let fileId = param_id req;
          userId = getUserIdAndKey st req
      in case userId of
           None \<Rightarrow> Reply 401 (ErrorObj ''Unauthorized'')
         | Some uid \<Rightarrow>
             (case getUser st uid of
                None \<Rightarrow> Reply 401 (ErrorObj ''Unauthorized'')
              | Some user \<Rightarrow>
                  if \<not> isValidId E (Some fileId) \<or> \<not> isValidId E userId
                  then Reply 404 (ErrorObj ''Not found'')
                  else
                    (case getFile_db st (ByIdOwner fileId uid) of
                       None \<Rightarrow> Reply 404 (ErrorObj ''Not found'')
                     | Some result \<Rightarrow> Reply 200 (FileDoc (processFile result)))))"

text \<open>
  \<^verbatim>\<open>getIndex\<close>, in its parts: the parent the request names
  (\<^verbatim>\<open>request.query.parentId || '0'\<close>, with \<^verbatim>\<open>'0'\<close> turned into \<^verbatim>\<open>0\<close>), the page
  (\<^verbatim>\<open>Number(request.query.page) || 0\<close>, then \<^verbatim>\<open>NaN\<close> replaced by 0), the pipeline, and
  the listing itself.
\<close>

definition parentOf :: "request \<Rightarrow> parent" where
  "parentOf req =
     (let parentId = (if falsy (q_parentId req) then ''0''
                      else (case q_parentId req of Some p \<Rightarrow> p | None \<Rightarrow> ''0''))
      in if parentId = ''0'' then Root else Parent parentId)"

definition pageOf :: "request \<Rightarrow> jsnum" where
  "pageOf req =
     (let page = (if q_page req = NaN \<or> q_page req = Num 0 then Num 0 else q_page req)
      in if page = NaN then Num 0 else page)"

text \<open>
  \<^verbatim>\<open>page * 20\<close>: \<^verbatim>\<open>NaN\<close> for \<^verbatim>\<open>NaN\<close>, and the exact product for a page of the 32-bit
  range, which is below \<open>2 ^ 53\<close> in size.
\<close>

fun times20 :: "jsnum \<Rightarrow> int option" where
  "times20 NaN = None"
| "times20 (Num n) = Some (sint n * 20)"

definition pipelineOf :: "parent \<Rightarrow> jsnum \<Rightarrow> stage list" where
  "pipelineOf parentId page = [Match parentId, Skip (times20 page), Limit 20]"

definition listFiles :: "env \<Rightarrow> store \<Rightarrow> parent \<Rightarrow> jsnum \<Rightarrow> outcome" where
  "listFiles E st parentId page =
     (case getFilesOfParentId E st (pipelineOf parentId page) of
        None \<Rightarrow> Unhandled
      | Some docs \<Rightarrow> Reply 200 (FileList (map processFile docs)))"

definition getIndex :: "env \<Rightarrow> store \<Rightarrow> request \<Rightarrow> outcome" where
  "getIndex E st req =
     (case getUserIdAndKey st req of
        None \<Rightarrow> Reply 401 (ErrorObj ''Unauthorized'')
      | Some uid \<Rightarrow>
          (case getUser st uid of
             None \<Rightarrow> Reply 401 (ErrorObj ''Unauthorized'')
           | Some user \<Rightarrow>
               (case parentOf req of
                  Root \<Rightarrow> listFiles E st Root (pageOf req)
                | Parent p \<Rightarrow>
                    if \<not> isValidId E (Some p) then Reply 401 (ErrorObj ''Unauthorized'')
                    else
                      (case getFile_db st (ById p) of
                         None \<Rightarrow> Reply 200 (FileList [])
                       | Some folder \<Rightarrow>
                           if f_type folder \<noteq> ''folder'' then Reply 200 (FileList [])
                           else listFiles E st (Parent p) (pageOf req)))))"

definition putPublish :: "env \<Rightarrow> store \<Rightarrow> request \<Rightarrow> store \<times> outcome" where
  "putPublish E st req =
     (case publishUnpublish E st req True of
        (st1, Inl (code, error)) \<Rightarrow> (st1, Reply code (ErrorObj error))
      | (st1, Inr (code, updatedFile)) \<Rightarrow> (st1, Reply code (FileDoc updatedFile)))"

definition putUnpublish :: "env \<Rightarrow> store \<Rightarrow> request \<Rightarrow> store \<times> outcome" where
  "putUnpublish E st req =
     (case publishUnpublish E st req False of
        (st1, Inl (code, error)) \<Rightarrow> (st1, Reply code (ErrorObj error))
      | (st1, Inr (code, updatedFile)) \<Rightarrow> (st1, Reply code (FileDoc updatedFile)))"

text \<open>\<^verbatim>\<open>request.query.size || 0\<close>: no selector when the parameter is missing or empty.\<close>

definition sizeOf :: "request \<Rightarrow> string option" where
  "sizeOf req = (if falsy (q_size req) then None else q_size req)"

definition getFile :: "env \<Rightarrow> store \<Rightarrow> request \<Rightarrow> outcome" where
  "getFile E st req =
     (let userId = getUserIdAndKey st req;
          fileId = param_id req
      in if \<not> isValidId E (Some fileId) then Reply 404 (ErrorObj ''Not found'')
         else
           (case getFile_db st (ById fileId) of
              None \<Rightarrow> Reply 404 (ErrorObj ''Not found'')
            | Some f \<Rightarrow>
                if \<not> isOwnerAndPublic f userId then Reply 404 (ErrorObj ''Not found'')
                else if f_type f = ''folder''
                then Reply 400 (ErrorObj ''A folder doesn't have content'')
                else
                  (case getFileData st f (sizeOf req) of
                     Inl (code, error) \<Rightarrow> Reply code (ErrorObj error)
                   | Inr bytes \<Rightarrow> Reply 200 (Data bytes (contentType E (f_name f))))))"

section \<open>UsersController\<close>

definition addUserQueue :: "job \<Rightarrow> store \<Rightarrow> store" where
  "addUserQueue j st = st\<lparr>userQueue := userQueue st @ [j]\<rparr>"

definition postNew :: "env \<Rightarrow> world \<Rightarrow> store \<Rightarrow> request \<Rightarrow> store \<times> outcome" where
  "postNew E w st req =
     (case b_email (body req) of
        None \<Rightarrow> (st, Reply 400 (ErrorObj ''Missing email''))
      | Some email \<Rightarrow>
          if email = [] then (st, Reply 400 (ErrorObj ''Missing email''))
          else
            (case b_password (body req) of
               None \<Rightarrow> (st, Reply 400 (ErrorObj ''Missing password''))
             | Some password \<Rightarrow>
                 if password = [] then (st, Reply 400 (ErrorObj ''Missing password''))
                 else
                   (case find (\<lambda>u. u_email u = email) (users st) of
                      Some emailExists \<Rightarrow> (st, Reply 400 (ErrorObj ''Already exist''))
                    | None \<Rightarrow>
                        if w_fault w = InsertFault
                        then (addUserQueue \<lparr>job_fileId = None, job_userId = None\<rparr> st,
                              Reply 500 (ErrorObj ''Error creating user.''))
                        else
                          (let u = \<lparr>u_id = w_insertedId w, u_email = email,
                                    u_password = sha1 E password\<rparr>
                           in (addUserQueue
                                 \<lparr>job_fileId = None, job_userId = Some (w_insertedId w)\<rparr>
                                 (st\<lparr>users := users st @ [u]\<rparr>),
                               Reply 201 (UserDoc (w_insertedId w) email))))))"

section \<open>A concrete store for evaluation\<close>

text \<open>
  An instance of \<^verbatim>\<open>isValidId\<close>: the textual form of a database id, 24 hexadecimal
  digits. In the environment of the examples the database refuses a \<^verbatim>\<open>$skip\<close> stage whose
  count is negative or \<^verbatim>\<open>NaN\<close>.
\<close>

definition hexId :: "string option \<Rightarrow> bool" where
  "hexId x =
     (case x of
        None \<Rightarrow> False
      | Some s \<Rightarrow> length s = 24 \<and> list_all (\<lambda>c. List.member ''0123456789abcdefABCDEF'' c) s)"

definition demoEnv :: env where
  "demoEnv =
     \<lparr>isValidId = hexId, contentType = (\<lambda>name. ''application/octet-stream''),
      base64_decode = (\<lambda>d. d), sha1 = (\<lambda>p. ''sha1:'' @ p), env_FOLDER_PATH = None,
      skipOther = (\<lambda>c fs. None)\<rparr>"

definition aliceId :: string where "aliceId = ''0000000000000000000000a1''"
definition bobId :: string where "bobId = ''0000000000000000000000b2''"
definition docsId :: string where "docsId = ''0000000000000000000000f1''"
definition picId :: string where "picId = ''0000000000000000000000f2''"
definition notesId :: string where "notesId = ''0000000000000000000000f3''"
definition ghostId :: string where "ghostId = ''0000000000000000000000ee''"

definition docsFolder :: filedoc where
  "docsFolder = \<lparr>f_id = docsId, f_userId = aliceId, f_name = ''docs'', f_type = ''folder'',
            f_isPublic = True, f_parentId = Root, f_localPath = None\<rparr>"

definition picFile :: filedoc where
  "picFile = \<lparr>f_id = picId, f_userId = aliceId, f_name = ''pic.png'', f_type = ''image'',
           f_isPublic = False, f_parentId = Parent docsId,
           f_localPath = Some ''/tmp/files_manager/u1''\<rparr>"

definition notesFile :: filedoc where
  "notesFile = \<lparr>f_id = notesId, f_userId = bobId, f_name = ''notes.txt'', f_type = ''file'',
             f_isPublic = True, f_parentId = Root,
             f_localPath = Some ''/tmp/files_manager/u2''\<rparr>"

definition demoStore :: store where
  "demoStore =
     \<lparr>users = [\<lparr>u_id = aliceId, u_email = ''alice@example.com'', u_password = ''sha1:pw''\<rparr>,
               \<lparr>u_id = bobId, u_email = ''bob@example.com'', u_password = ''sha1:pw2''\<rparr>],
      sessions = [(''tokenA'', aliceId), (''tokenB'', bobId)],
      files = [docsFolder, picFile, notesFile],
      disk = [((''/tmp/files_manager/u1'', None), ''PNG''),
              ((''/tmp/files_manager/u2'', None), ''hello'')],
      fileQueue = [],
      userQueue = []\<rparr>"

definition demoWorld :: world where
  "demoWorld =
     \<lparr>w_insertedId = ''0000000000000000000000c9'', w_uuid = ''u9'', w_fault = NoFault,
      w_code = 400, w_msg = ''save failed''\<rparr>"

definition noBody :: reqbody where
  "noBody =
     \<lparr>b_name = None, b_type = None, b_parentId = None, b_isPublic = None, b_data = None,
      b_email = None, b_password = None\<rparr>"

text \<open>A request that carries nothing; the requests of the examples are updates of it.\<close>

definition anon :: request where
  "anon =
     \<lparr>token = None, param_id = [], q_parentId = None, q_page = NaN, q_size = None,
      body = noBody\<rparr>"

lemmas demo_defs =
  demoEnv_def hexId_def aliceId_def bobId_def docsId_def picId_def notesId_def ghostId_def
  docsFolder_def picFile_def notesFile_def demoStore_def demoWorld_def noBody_def anon_def

lemmas model_defs =
  falsy_def FOLDER_PATH_def getUserIdAndKey_def getUser_def getFile_db_def processFile_def
  isOwnerAndPublic_def getFileData_def resolvesToFolder_def validateBody_def saveFile_def
  publishUnpublish_def getFilesOfParentId_def skipStage_def addFileQueue_def
  parentIdInvalid_def
  parentOf_def pageOf_def pipelineOf_def listFiles_def sizeOf_def addUserQueue_def Let_def

section \<open>Lookups in the files collection\<close>

lemma find_owner_None:
  assumes d: "distinct (map f_id fs)" and f: "find (matches (ById i)) fs = Some f"
    and o: "f_userId f \<noteq> u"
  shows "find (matches (ByIdOwner i u)) fs = None"
proof -
  from f have fin: "f \<in> set fs" and fid: "f_id f = i"
    by (auto simp: find_Some_iff)
  from d have inj: "inj_on f_id (set fs)"
    by (simp add: distinct_map)
  have "\<not> (\<exists>x \<in> set fs. matches (ByIdOwner i u) x)"
  proof
    assume "\<exists>x \<in> set fs. matches (ByIdOwner i u) x"
    then obtain x where x: "x \<in> set fs" "f_id x = i" "f_userId x = u" by auto
    from inj x(1) fin x(2) fid have "x = f" by (auto dest: inj_onD)
    with x(3) o show False by simp
  qed
  then show ?thesis by (simp add: find_None_iff)
qed

lemma find_owner_missing:
  "find (matches (ById i)) fs = None \<Longrightarrow> find (matches (ByIdOwner i u)) fs = None"
  by (auto simp: find_None_iff)

section \<open>Content retrieval\<close>

text \<open>
  C1, as amended. A request for the content of the file with id \<open>F\<close> by requester \<open>R\<close>
  fails with the not-found error whenever \<open>F\<close> is absent, or \<open>F\<close> is private and \<open>R\<close> is
  not its owner (an anonymous \<open>R\<close> included). The answer is a success exactly when the id
  is well formed, \<open>F\<close> exists, \<open>F\<close> is public or owned by \<open>R\<close>, \<open>F\<close> is not a folder and
  its bytes are on disk; the body is then those bytes, sent with the content type of the name
  of \<open>F\<close>.
\<close>

theorem getFile_access:
  "((getFile_db st (ById (param_id req)) = None
      \<or> (\<exists>f. getFile_db st (ById (param_id req)) = Some f \<and> \<not> f_isPublic f
              \<and> getUserIdAndKey st req \<noteq> Some (f_userId f)))
     \<longrightarrow> getFile E st req = Reply 404 (ErrorObj ''Not found''))
   \<and> (getFile E st req = Reply 200 p
        \<longleftrightarrow> (\<exists>f path bytes. isValidId E (Some (param_id req))
                 \<and> getFile_db st (ById (param_id req)) = Some f
                 \<and> (f_isPublic f \<or> getUserIdAndKey st req = Some (f_userId f))
                 \<and> f_type f \<noteq> ''folder''
                 \<and> f_localPath f = Some path
                 \<and> map_of (disk st) (path, sizeOf req) = Some bytes
                 \<and> p = Data bytes (contentType E (f_name f))))"
  by (auto simp: getFile_def isOwnerAndPublic_def getFileData_def Let_def
           split: option.splits sum.splits)

text \<open>
  The theorem at two requests without a token: Alice's private picture is not found, and the
  bytes of Bob's public text file are served.
\<close>

theorem getFile_access_witness:
  "getFile demoEnv demoStore (anon\<lparr>param_id := picId\<rparr>) = Reply 404 (ErrorObj ''Not found'')
   \<and> getFile demoEnv demoStore (anon\<lparr>param_id := notesId\<rparr>)
       = Reply 200 (Data ''hello'' (contentType demoEnv ''notes.txt''))"
proof -
  have priv:
    "getFile_db demoStore (ById (param_id (anon\<lparr>param_id := picId\<rparr>))) = None
     \<or> (\<exists>f. getFile_db demoStore (ById (param_id (anon\<lparr>param_id := picId\<rparr>))) = Some f
             \<and> \<not> f_isPublic f
             \<and> getUserIdAndKey demoStore (anon\<lparr>param_id := picId\<rparr>) \<noteq> Some (f_userId f))"
    by (simp add: model_defs demo_defs)
  have pub:
    "\<exists>f path bytes. isValidId demoEnv (Some (param_id (anon\<lparr>param_id := notesId\<rparr>)))
       \<and> getFile_db demoStore (ById (param_id (anon\<lparr>param_id := notesId\<rparr>))) = Some f
       \<and> (f_isPublic f
            \<or> getUserIdAndKey demoStore (anon\<lparr>param_id := notesId\<rparr>) = Some (f_userId f))
       \<and> f_type f \<noteq> ''folder''
       \<and> f_localPath f = Some path
       \<and> map_of (disk demoStore) (path, sizeOf (anon\<lparr>param_id := notesId\<rparr>)) = Some bytes
       \<and> Data ''hello'' (contentType demoEnv ''notes.txt'')
           = Data bytes (contentType demoEnv (f_name f))"
    by (simp add: model_defs demo_defs)
  note a = getFile_access
      [where st = demoStore and req = "anon\<lparr>param_id := picId\<rparr>" and E = demoEnv,
       THEN conjunct1, THEN mp, OF priv]
  note b = getFile_access
      [where st = demoStore and req = "anon\<lparr>param_id := notesId\<rparr>" and E = demoEnv
         and p = "Data ''hello'' (contentType demoEnv ''notes.txt'')",
       THEN conjunct2, THEN iffD2, OF pub]
  from a b show ?thesis by (rule conjI)
qed

text \<open>
  C1 as stated fails: the folder \<open>docsFolder\<close> exists and is public, and a request for its
  content is answered with a client error, not with content.
\<close>

theorem getFile_public_folder_counterexample:
  "getFile_db demoStore (ById docsId) = Some docsFolder \<and> f_isPublic docsFolder
   \<and> getFile demoEnv demoStore (anon\<lparr>param_id := docsId\<rparr>)
       = Reply 400 (ErrorObj ''A folder doesn't have content'')"
  by (simp add: getFile_def model_defs demo_defs)

text \<open>
  C8. A request for the content of a file that passes the existence and visibility check and
  is a folder fails with the client error that a folder has no content, which is not the
  not-found error.
\<close>

theorem getFile_folder_error:
  assumes "isValidId E (Some (param_id req))"
    and "getFile_db st (ById (param_id req)) = Some f"
    and "f_isPublic f \<or> getUserIdAndKey st req = Some (f_userId f)"
    and "f_type f = ''folder''"
  shows "getFile E st req = Reply 400 (ErrorObj ''A folder doesn't have content'')
         \<and> getFile E st req \<noteq> Reply 404 (ErrorObj ''Not found'')"
  using assms by (auto simp: getFile_def isOwnerAndPublic_def Let_def)

theorem getFile_folder_error_witness:
  "getFile demoEnv demoStore (anon\<lparr>param_id := docsId, token := Some ''tokenB''\<rparr>)
     = Reply 400 (ErrorObj ''A folder doesn't have content'')"
proof -
  let ?req = "anon\<lparr>param_id := docsId, token := Some ''tokenB''\<rparr>"
  have 1: "isValidId demoEnv (Some (param_id ?req))" by (simp add: demo_defs)
  have 2: "getFile_db demoStore (ById (param_id ?req)) = Some docsFolder"
    by (simp add: model_defs demo_defs)
  have 3: "f_isPublic docsFolder
           \<or> getUserIdAndKey demoStore ?req = Some (f_userId docsFolder)"
    by (simp add: demo_defs)
  have 4: "f_type docsFolder = ''folder''" by (simp add: demo_defs)
  from getFile_folder_error [OF 1 2 3 4] show ?thesis by simp
qed

section \<open>Metadata lookup\<close>

text \<open>
  C2. For an authenticated requester, the lookup of an existing file owned by another user
  is answered with the not-found error, the same response as the lookup of an id that matches
  no file.
\<close>

theorem getShow_foreign_file_not_found:
  assumes "getUserIdAndKey st req = Some uid" and "getUser st uid = Some u"
    and "distinct (map f_id (files st))"
    and "getFile_db st (ById (param_id req)) = Some f" and "f_userId f \<noteq> uid"
    and "getFile_db st (ById missing) = None"
  shows "getShow E st req = Reply 404 (ErrorObj ''Not found'')
         \<and> getShow E st (req\<lparr>param_id := missing\<rparr>) = getShow E st req"
proof -
  from assms(3,4,5) have own: "getFile_db st (ByIdOwner (param_id req) uid) = None"
    unfolding getFile_db_def by (rule find_owner_None)
  from assms(6) have mis: "getFile_db st (ByIdOwner missing uid) = None"
    unfolding getFile_db_def by (rule find_owner_missing)
  have auth': "getUserIdAndKey st (req\<lparr>param_id := missing\<rparr>) = Some uid"
    using assms(1) by (simp add: getUserIdAndKey_def)
  have a: "getShow E st req = Reply 404 (ErrorObj ''Not found'')"
    using assms(1,2) own by (simp add: getShow_def Let_def)
  have b: "getShow E st (req\<lparr>param_id := missing\<rparr>) = Reply 404 (ErrorObj ''Not found'')"
    using auth' assms(2) mis by (simp add: getShow_def Let_def)
  from a b show ?thesis by simp
qed

text \<open>Bob asks for Alice's picture, and for an id that no file has.\<close>

theorem getShow_foreign_file_not_found_witness:
  "getShow demoEnv demoStore (anon\<lparr>token := Some ''tokenB'', param_id := picId\<rparr>)
     = Reply 404 (ErrorObj ''Not found'')
   \<and> getShow demoEnv demoStore
        (anon\<lparr>token := Some ''tokenB'', param_id := picId, param_id := ghostId\<rparr>)
     = getShow demoEnv demoStore (anon\<lparr>token := Some ''tokenB'', param_id := picId\<rparr>)"
proof -
  let ?req = "anon\<lparr>token := Some ''tokenB'', param_id := picId\<rparr>"
  have 1: "getUserIdAndKey demoStore ?req = Some bobId" by (simp add: model_defs demo_defs)
  have 2: "getUser demoStore bobId
           = Some \<lparr>u_id = bobId, u_email = ''bob@example.com'', u_password = ''sha1:pw2''\<rparr>"
    by (simp add: model_defs demo_defs)
  have 3: "distinct (map f_id (files demoStore))" by (simp add: demo_defs)
  have 4: "getFile_db demoStore (ById (param_id ?req)) = Some picFile"
    by (simp add: model_defs demo_defs)
  have 5: "f_userId picFile \<noteq> bobId" by (simp add: demo_defs)
  have 6: "getFile_db demoStore (ById ghostId) = None" by (simp add: model_defs demo_defs)
  from getShow_foreign_file_not_found [OF 1 2 3 4 5 6] show ?thesis by simp
qed

section \<open>Listing\<close>

lemma getFilesOfParentId_page:
  "0 \<le> sint n \<Longrightarrow>
   getFilesOfParentId E st (pipelineOf par (Num n))
     = Some (take 20 (drop (nat (sint n) * 20) (filter (\<lambda>f. f_parentId f = par) (files st))))"
  by (simp add: getFilesOfParentId_def pipelineOf_def skipStage_def nat_mult_distrib)

lemma listFiles_page:
  "0 \<le> sint n \<Longrightarrow>
   listFiles E st par (Num n)
     = Reply 200 (FileList (map processFile
         (take 20 (drop (nat (sint n) * 20) (filter (\<lambda>f. f_parentId f = par) (files st))))))"
  by (simp add: listFiles_def getFilesOfParentId_page)

lemma aggregate_limit20:
  "getFilesOfParentId E st (pipelineOf par pg) = Some ds \<Longrightarrow> length ds \<le> 20"
  by (auto simp: getFilesOfParentId_def pipelineOf_def split: option.splits)

lemma listFiles_length:
  "listFiles E st par pg = Reply 200 (FileList xs) \<Longrightarrow> length xs \<le> 20"
  by (auto simp: listFiles_def split: option.splits dest: aggregate_limit20)

lemma pageOf_cases:
  "q_page req = NaN \<Longrightarrow> pageOf req = Num 0"
  "q_page req = Num n \<Longrightarrow> pageOf req = Num n"
  by (auto simp: pageOf_def Let_def)

text \<open>
  What the listing does keep of its pages. For an authenticated request whose parent is the
  root or resolves to a folder, a page that is not numeric is page 0, and for a page \<open>k\<close>
  that is not negative the answer is the sequence of the parent's children at offset
  \<open>k * 20\<close>, cut at 20 files. Whatever the request, a sequence that is returned has at most
  20 files.
\<close>

lemma getIndex_page:
  assumes "getUserIdAndKey st req = Some uid" and "getUser st uid = Some u"
    and page: "q_page req = NaN \<and> k = 0
               \<or> (\<exists>n. q_page req = Num n \<and> 0 \<le> sint n \<and> k = nat (sint n))"
    and par: "parentOf req = Root
              \<or> (\<exists>p. parentOf req = Parent p \<and> isValidId E (Some p) \<and> resolvesToFolder st p)"
  shows "getIndex E st req
           = Reply 200 (FileList (map processFile
               (take 20 (drop (k * 20)
                  (filter (\<lambda>f. f_parentId f = parentOf req) (files st))))))"
proof -
  from page obtain n where pg: "pageOf req = Num n" and n: "0 \<le> sint n" "k = nat (sint n)"
    by (auto simp: pageOf_cases)
  from assms(1,2) par show ?thesis
    by (auto simp: getIndex_def pg n listFiles_page resolvesToFolder_def
             split: option.splits)
qed

lemma getIndex_length:
  "getIndex E st req = Reply 200 (FileList xs) \<Longrightarrow> length xs \<le> 20"
  by (auto simp: getIndex_def split: option.splits parent.splits if_splits
           dest: listFiles_length)

text \<open>
  C4. The claim says that a negative page is normalized to 0. The code does not do it: for
  the page \<open>-1\<close> the page stays \<open>-1\<close> and the pipeline sent to the database skips \<open>-20\<close>
  documents, where the request for page 0 skips none; the answer is then whatever the
  database makes of that stage, and no answer at all when the database refuses it.
\<close>

theorem getIndex_negative_page:
  "pageOf (anon\<lparr>token := Some ''tokenB'', q_page := Num (- 1)\<rparr>) = Num (- 1)
   \<and> pipelineOf Root (pageOf (anon\<lparr>token := Some ''tokenB'', q_page := Num (- 1)\<rparr>))
       = [Match Root, Skip (Some (- 20)), Limit 20]
   \<and> pipelineOf Root (pageOf (anon\<lparr>token := Some ''tokenB'', q_page := Num 0\<rparr>))
       = [Match Root, Skip (Some 0), Limit 20]
   \<and> getIndex E demoStore (anon\<lparr>token := Some ''tokenB'', q_page := Num (- 1)\<rparr>)
       = (case skipOther E (Some (- 20)) [docsFolder, notesFile] of
            None \<Rightarrow> Unhandled
          | Some fs \<Rightarrow> Reply 200 (FileList (map processFile (take 20 fs))))
   \<and> getIndex E demoStore (anon\<lparr>token := Some ''tokenB'', q_page := Num 0\<rparr>)
       = Reply 200 (FileList [processFile docsFolder, processFile notesFile])"
  by (simp add: getIndex_def model_defs demo_defs split: option.splits)

text \<open>
  What the listing does keep of a parent that is missing. For a listing request by an
  authenticated user whose non-zero \<^verbatim>\<open>parentId\<close> is a well-formed id that does not
  resolve to an existing file of type folder, the response is the empty sequence, sent as a
  success.
\<close>

lemma getIndex_unresolved_parent_empty:
  assumes "getUserIdAndKey st req = Some uid" and "getUser st uid = Some u"
    and "parentOf req = Parent p" and "isValidId E (Some p)" and "\<not> resolvesToFolder st p"
  shows "getIndex E st req = Reply 200 (FileList [])"
  using assms by (auto simp: getIndex_def resolvesToFolder_def split: option.splits)

text \<open>
  C3. The claim says that a listing by an authenticated user whose non-zero \<^verbatim>\<open>parentId\<close>
  does not resolve to a folder is answered with the empty sequence, never with an error. The
  code does not do it for an id that is not well formed: Bob is authenticated, the
  \<^verbatim>\<open>parentId\<close> \<^verbatim>\<open>xyz\<close> resolves to no file, and the answer is the error
  \<^verbatim>\<open>Unauthorized\<close> with status 401, where an id that is well formed and resolves to no file
  is answered with the empty sequence.
\<close>

theorem getIndex_malformed_parent_unauthorized:
  "getUserIdAndKey demoStore (anon\<lparr>token := Some ''tokenB'', q_parentId := Some ''xyz''\<rparr>)
     = Some bobId
   \<and> parentOf (anon\<lparr>token := Some ''tokenB'', q_parentId := Some ''xyz''\<rparr>) = Parent ''xyz''
   \<and> \<not> resolvesToFolder demoStore ''xyz''
   \<and> getIndex demoEnv demoStore (anon\<lparr>token := Some ''tokenB'', q_parentId := Some ''xyz''\<rparr>)
       = Reply 401 (ErrorObj ''Unauthorized'')
   \<and> getIndex demoEnv demoStore (anon\<lparr>token := Some ''tokenB'', q_parentId := Some ghostId\<rparr>)
       = Reply 200 (FileList [])"
  by (simp add: getIndex_def model_defs demo_defs)

section \<open>File creation\<close>

lemma addFileQueue_fields [simp]:
  "files (addFileQueue j st) = files st"
  "disk (addFileQueue j st) = disk st"
  "users (addFileQueue j st) = users st"
  "sessions (addFileQueue j st) = sessions st"
  "userQueue (addFileQueue j st) = userQueue st"
  "fileQueue (addFileQueue j st) = fileQueue st @ [j]"
  by (simp_all add: addFileQueue_def)

lemma addFileQueue_lookups [simp]:
  "getUser (addFileQueue j st) uid = getUser st uid"
  "getFile_db (addFileQueue j st) q = getFile_db st q"
  "resolvesToFolder (addFileQueue j st) p = resolvesToFolder st p"
  by (simp_all add: getUser_def getFile_db_def resolvesToFolder_def)

lemma addFileQueue_validateBody [simp]:
  "validateBody (addFileQueue j st) req = validateBody st req"
  unfolding validateBody_def addFileQueue_lookups by (rule refl)

lemma saveFile_fileQueue:
  "fileQueue (fst (saveFile E w st uid fp path)) = fileQueue st"
  by (simp add: saveFile_def Let_def split: option.splits)

lemma saveFile_created:
  assumes "saveFile E w st uid fp path = (st2, Inr nf)"
  shows "fileQueue st2 = fileQueue st \<and> v_type nf = fp_type fp \<and> v_userId nf = uid
         \<and> (\<exists>f. f \<in> set (files st2) \<and> processFile f = nf)"
  using assms
  by (auto simp: saveFile_def Let_def processFile_def split: option.splits if_splits)

lemma validateBody_unresolved_parent:
  assumes "b_parentId (body req) = Some (Parent p)" and "\<not> resolvesToFolder st p"
  shows "\<exists>m. validateBody st req = Inl m"
  using assms by (auto simp: validateBody_def Let_def split: option.splits)

text \<open>What \<^verbatim>\<open>postUpload\<close> does once the requester is authenticated.\<close>

lemma postUpload_authenticated:
  assumes "getUserIdAndKey st req = Some uid" and "uid \<noteq> []"
    and "isValidId E (Some uid)" and "getUser st uid = Some u"
  shows "postUpload E w st req =
     (case validateBody st req of
        Inl validationError \<Rightarrow> (st, Reply 400 (ErrorObj validationError))
      | Inr fp \<Rightarrow>
          if parentIdInvalid E fp then (st, Reply 400 (ErrorObj ''Parent not found''))
          else
            (case saveFile E w st uid fp (FOLDER_PATH E) of
               (st2, Inl (code, error)) \<Rightarrow>
                 (if b_type (body req) = Some ''image''
                  then addFileQueue \<lparr>job_fileId = None, job_userId = Some uid\<rparr> st2
                  else st2,
                  Reply code (Plain error))
             | (st2, Inr newFile) \<Rightarrow>
                 (if fp_type fp = ''image''
                  then addFileQueue
                         \<lparr>job_fileId = Some (v_id newFile),
                          job_userId = Some (v_userId newFile)\<rparr> st2
                  else st2,
                  Reply 201 (FileDoc newFile))))"
  using assms by (simp add: postUpload_def falsy_def Let_def)

text \<open>
  C5. The payload of a file creation is validated in order and the first failure wins: a
  missing or empty name gives \<^verbatim>\<open>Missing name\<close>; otherwise a type that is missing or not
  one of folder, file and image gives \<^verbatim>\<open>Missing type\<close>; otherwise a file or an image
  without data gives \<^verbatim>\<open>Missing data\<close>. Each failure is sent with status 400 and the store
  is left as it was.
\<close>

theorem postUpload_validation_order:
  assumes "getUserIdAndKey st req = Some uid" and "uid \<noteq> []"
    and "isValidId E (Some uid)" and "getUser st uid = Some u"
  shows "(falsy (b_name (body req))
            \<longrightarrow> postUpload E w st req = (st, Reply 400 (ErrorObj ''Missing name'')))
       \<and> (\<not> falsy (b_name (body req))
            \<and> b_type (body req) \<notin> {Some ''folder'', Some ''file'', Some ''image''}
            \<longrightarrow> postUpload E w st req = (st, Reply 400 (ErrorObj ''Missing type'')))
       \<and> (\<not> falsy (b_name (body req))
            \<and> b_type (body req) \<in> {Some ''file'', Some ''image''}
            \<and> b_data (body req) = None
            \<longrightarrow> postUpload E w st req = (st, Reply 400 (ErrorObj ''Missing data'')))"
  unfolding postUpload_authenticated [OF assms]
  by (auto simp: validateBody_def falsy_def Let_def split: option.splits)


text \<open>Alice sends no name, then an unknown type, then an image without data.\<close>

theorem postUpload_validation_order_witness:
  "postUpload demoEnv demoWorld demoStore (anon\<lparr>token := Some ''tokenA''\<rparr>)
     = (demoStore, Reply 400 (ErrorObj ''Missing name''))
   \<and> postUpload demoEnv demoWorld demoStore
        (anon\<lparr>token := Some ''tokenA'',
              body := noBody\<lparr>b_name := Some ''a.mp4'', b_type := Some ''video''\<rparr>\<rparr>)
     = (demoStore, Reply 400 (ErrorObj ''Missing type''))
   \<and> postUpload demoEnv demoWorld demoStore
        (anon\<lparr>token := Some ''tokenA'',
              body := noBody\<lparr>b_name := Some ''a.png'', b_type := Some ''image''\<rparr>\<rparr>)
     = (demoStore, Reply 400 (ErrorObj ''Missing data''))"
proof -
  let ?r1 = "anon\<lparr>token := Some ''tokenA''\<rparr>"
  let ?r2 = "anon\<lparr>token := Some ''tokenA'',
                   body := noBody\<lparr>b_name := Some ''a.mp4'', b_type := Some ''video''\<rparr>\<rparr>"
  let ?r3 = "anon\<lparr>token := Some ''tokenA'',
                   body := noBody\<lparr>b_name := Some ''a.png'', b_type := Some ''image''\<rparr>\<rparr>"
  let ?alice = "\<lparr>u_id = aliceId, u_email = ''alice@example.com'', u_password = ''sha1:pw''\<rparr>"
  have s1: "getUserIdAndKey demoStore ?r1 = Some aliceId" by (simp add: model_defs demo_defs)
  have s2: "getUserIdAndKey demoStore ?r2 = Some aliceId" by (simp add: model_defs demo_defs)
  have s3: "getUserIdAndKey demoStore ?r3 = Some aliceId" by (simp add: model_defs demo_defs)
  have ne: "aliceId \<noteq> []" by (simp add: demo_defs)
  have v: "isValidId demoEnv (Some aliceId)" by (simp add: demo_defs)
  have u: "getUser demoStore aliceId = Some ?alice" by (simp add: model_defs demo_defs)
  have n1: "falsy (b_name (body ?r1))" by (simp add: falsy_def demo_defs)
  have n2: "\<not> falsy (b_name (body ?r2))
            \<and> b_type (body ?r2) \<notin> {Some ''folder'', Some ''file'', Some ''image''}"
    by (simp add: falsy_def demo_defs)
  have n3: "\<not> falsy (b_name (body ?r3))
            \<and> b_type (body ?r3) \<in> {Some ''file'', Some ''image''}
            \<and> b_data (body ?r3) = None"
    by (simp add: falsy_def demo_defs)
  from n1 postUpload_validation_order [OF s1 ne v u, of demoWorld]
  have a: "postUpload demoEnv demoWorld demoStore ?r1
             = (demoStore, Reply 400 (ErrorObj ''Missing name''))"
    by blast
  from n2 postUpload_validation_order [OF s2 ne v u, of demoWorld]
  have b: "postUpload demoEnv demoWorld demoStore ?r2
             = (demoStore, Reply 400 (ErrorObj ''Missing type''))"
    by blast
  from n3 postUpload_validation_order [OF s3 ne v u, of demoWorld]
  have c: "postUpload demoEnv demoWorld demoStore ?r3
             = (demoStore, Reply 400 (ErrorObj ''Missing data''))"
    by blast
  from a b c show ?thesis by simp
qed

lemma validateBody_parent_not_found:
  assumes "b_parentId (body req) = Some (Parent p)" and "\<not> resolvesToFolder st p"
    and "\<not> falsy (b_name (body req))"
    and "b_type (body req) \<in> {Some ''folder'', Some ''file'', Some ''image''}"
    and "b_type (body req) = Some ''folder'' \<or> b_data (body req) \<noteq> None"
  shows "validateBody st req = Inl ''Parent not found''"
  using assms by (auto simp: validateBody_def falsy_def Let_def split: option.splits)

text \<open>
  C6, as amended. A creation whose non-zero \<^verbatim>\<open>parentId\<close> does not resolve to an existing
  file of type folder fails, with a client error, and persists neither a metadata record nor
  content bytes; when the requester is authenticated and the three earlier rules pass, the
  error is \<^verbatim>\<open>Parent not found\<close>.
\<close>

theorem postUpload_unresolved_parent:
  assumes "b_parentId (body req) = Some (Parent p)" and "\<not> resolvesToFolder st p"
  shows "files (fst (postUpload E w st req)) = files st
       \<and> disk (fst (postUpload E w st req)) = disk st
       \<and> (\<exists>m. snd (postUpload E w st req) = Reply 400 (ErrorObj m)
               \<or> snd (postUpload E w st req) = Reply 401 (ErrorObj m))
       \<and> (getUserIdAndKey st req = Some uid \<and> isValidId E (Some uid)
            \<and> getUser st uid = Some u
            \<and> \<not> falsy (b_name (body req))
            \<and> b_type (body req) \<in> {Some ''folder'', Some ''file'', Some ''image''}
            \<and> (b_type (body req) = Some ''folder'' \<or> b_data (body req) \<noteq> None)
          \<longrightarrow> snd (postUpload E w st req) = Reply 400 (ErrorObj ''Parent not found''))"
proof -
  from assms obtain m where m: "validateBody st req = Inl m"
    using validateBody_unresolved_parent by blast
  have a: "files (fst (postUpload E w st req)) = files st
       \<and> disk (fst (postUpload E w st req)) = disk st
       \<and> (\<exists>m. snd (postUpload E w st req) = Reply 400 (ErrorObj m)
               \<or> snd (postUpload E w st req) = Reply 401 (ErrorObj m))"
    using m by (simp add: postUpload_def Let_def split: option.splits)
  have b: "snd (postUpload E w st req) = Reply 400 (ErrorObj ''Parent not found'')"
    if "getUserIdAndKey st req = Some uid \<and> isValidId E (Some uid)
            \<and> getUser st uid = Some u
            \<and> \<not> falsy (b_name (body req))
            \<and> b_type (body req) \<in> {Some ''folder'', Some ''file'', Some ''image''}
            \<and> (b_type (body req) = Some ''folder'' \<or> b_data (body req) \<noteq> None)"
  proof -
    from that assms have "validateBody st req = Inl ''Parent not found''"
      by (intro validateBody_parent_not_found) auto
    with that show ?thesis
      by (simp add: postUpload_def Let_def)
  qed
  from a b show ?thesis by blast
qed

text \<open>Alice uploads a file into a parent that does not exist.\<close>

theorem postUpload_unresolved_parent_witness:
  "postUpload demoEnv demoWorld demoStore
     (anon\<lparr>token := Some ''tokenA'',
           body := noBody\<lparr>b_name := Some ''a.txt'', b_type := Some ''file'',
                          b_data := Some ''aGVsbG8='',
                          b_parentId := Some (Parent ghostId)\<rparr>\<rparr>)
   = (demoStore, Reply 400 (ErrorObj ''Parent not found''))"
proof -
  let ?r = "anon\<lparr>token := Some ''tokenA'',
           body := noBody\<lparr>b_name := Some ''a.txt'', b_type := Some ''file'',
                          b_data := Some ''aGVsbG8='',
                          b_parentId := Some (Parent ghostId)\<rparr>\<rparr>"
  let ?alice = "\<lparr>u_id = aliceId, u_email = ''alice@example.com'', u_password = ''sha1:pw''\<rparr>"
  have 1: "b_parentId (body ?r) = Some (Parent ghostId)" by (simp add: demo_defs)
  have 2: "\<not> resolvesToFolder demoStore ghostId" by (simp add: model_defs demo_defs)
  have 3: "getUserIdAndKey demoStore ?r = Some aliceId \<and> isValidId demoEnv (Some aliceId)
            \<and> getUser demoStore aliceId = Some ?alice
            \<and> \<not> falsy (b_name (body ?r))
            \<and> b_type (body ?r) \<in> {Some ''folder'', Some ''file'', Some ''image''}
            \<and> (b_type (body ?r) = Some ''folder'' \<or> b_data (body ?r) \<noteq> None)"
    by (simp add: model_defs demo_defs)
  from 3 postUpload_unresolved_parent [OF 1 2, of demoEnv demoWorld aliceId ?alice]
  have "snd (postUpload demoEnv demoWorld demoStore ?r)
          = Reply 400 (ErrorObj ''Parent not found'')"
    by blast
  moreover have "fst (postUpload demoEnv demoWorld demoStore ?r) = demoStore"
    by (simp add: postUpload_def model_defs demo_defs)
  ultimately show ?thesis by (simp add: prod_eq_iff)
qed


text \<open>
  C6 as stated fails: Alice uploads into a parent that does not exist without giving a name,
  and the error is \<^verbatim>\<open>Missing name\<close>; the same upload with a name and without a token is
  answered with \<^verbatim>\<open>Unauthorized\<close>. The first check that fails wins.
\<close>

theorem postUpload_unresolved_parent_counterexample:
  "\<not> resolvesToFolder demoStore ghostId
   \<and> postUpload demoEnv demoWorld demoStore
        (anon\<lparr>token := Some ''tokenA'',
              body := noBody\<lparr>b_type := Some ''file'', b_data := Some ''aGVsbG8='',
                             b_parentId := Some (Parent ghostId)\<rparr>\<rparr>)
       = (demoStore, Reply 400 (ErrorObj ''Missing name''))
   \<and> postUpload demoEnv demoWorld demoStore
        (anon\<lparr>body := noBody\<lparr>b_name := Some ''a.txt'', b_type := Some ''file'',
                             b_data := Some ''aGVsbG8='',
                             b_parentId := Some (Parent ghostId)\<rparr>\<rparr>)
       = (demoStore, Reply 401 (ErrorObj ''Unauthorized''))"
  by (simp add: postUpload_def model_defs demo_defs)

section \<open>Jobs\<close>

lemma postUpload_created:
  assumes ok: "snd (postUpload E w st req) = Reply 201 (FileDoc nf)"
    and img: "v_type nf = ''image''"
  shows "\<exists>js. fileQueue (fst (postUpload E w st req))
                = fileQueue st @ js
                  @ [\<lparr>job_fileId = Some (v_id nf), job_userId = Some (v_userId nf)\<rparr>]"
    and "\<exists>f. f \<in> set (files (fst (postUpload E w st req))) \<and> processFile f = nf"
proof -
  define userId where "userId = getUserIdAndKey st req"
  define st1 where
    "st1 = (if falsy userId \<and> b_type (body req) = Some ''image''
            then addFileQueue \<lparr>job_fileId = None, job_userId = None\<rparr> st else st)"
  have q1: "\<exists>js. fileQueue st1 = fileQueue st @ js"
    by (simp add: st1_def)
  have look: "getUser st1 = getUser st" "validateBody st1 req = validateBody st req"
    by (auto simp: st1_def)
  have pu: "postUpload E w st req =
     (if \<not> isValidId E userId then (st, Reply 401 (ErrorObj ''Unauthorized''))
      else case userId of
              None \<Rightarrow> (st1, Reply 401 (ErrorObj ''Unauthorized''))
            | Some uid \<Rightarrow>
                (case getUser st1 uid of
                   None \<Rightarrow> (st1, Reply 401 (ErrorObj ''Unauthorized''))
                 | Some user \<Rightarrow>
                     (case validateBody st1 req of
                        Inl validationError \<Rightarrow> (st1, Reply 400 (ErrorObj validationError))
                      | Inr fp \<Rightarrow>
                          if parentIdInvalid E fp
                          then (st1, Reply 400 (ErrorObj ''Parent not found''))
                          else
                            (case saveFile E w st1 uid fp (FOLDER_PATH E) of
                               (st2, Inl (code, error)) \<Rightarrow>
                                 (if b_type (body req) = Some ''image''
                                  then addFileQueue
                                         \<lparr>job_fileId = None, job_userId = Some uid\<rparr> st2
                                  else st2,
                                  Reply code (Plain error))
                             | (st2, Inr newFile) \<Rightarrow>
                                 (if fp_type fp = ''image''
                                  then addFileQueue
                                         \<lparr>job_fileId = Some (v_id newFile),
                                          job_userId = Some (v_userId newFile)\<rparr> st2
                                  else st2,
                                  Reply 201 (FileDoc newFile))))))"
    unfolding postUpload_def userId_def st1_def Let_def by (rule refl)
  from ok have v: "isValidId E userId"
    by (simp add: pu split: if_splits)
  from ok v obtain uid where uid: "userId = Some uid"
    by (cases userId) (simp_all add: pu)
  from ok v uid obtain u where u: "getUser st1 uid = Some u"
    by (cases "getUser st1 uid") (simp_all add: pu)
  from ok v uid u obtain fp where fp: "validateBody st1 req = Inr fp"
    by (cases "validateBody st1 req") (simp_all add: pu)
  from ok v uid u fp have np: "\<not> parentIdInvalid E fp"
    by (simp add: pu split: if_splits)
  obtain st2 r where sf: "saveFile E w st1 uid fp (FOLDER_PATH E) = (st2, r)"
    by (cases "saveFile E w st1 uid fp (FOLDER_PATH E)")
  from ok v uid u fp np sf have r: "r = Inr nf"
    by (cases r) (simp_all add: pu split: prod.splits)
  from saveFile_created [OF sf [unfolded r]]
  have c: "fileQueue st2 = fileQueue st1" "v_type nf = fp_type fp"
    "\<exists>f. f \<in> set (files st2) \<and> processFile f = nf"
    by simp_all
  from c(2) img have t: "fp_type fp = ''image''" by simp
  have res: "postUpload E w st req
             = (addFileQueue \<lparr>job_fileId = Some (v_id nf), job_userId = Some (v_userId nf)\<rparr>
                  st2,
                Reply 201 (FileDoc nf))"
    using v uid u fp np sf r t by (simp add: pu)
  from q1 obtain js where js: "fileQueue st1 = fileQueue st @ js" by blast
  show "\<exists>js. fileQueue (fst (postUpload E w st req))
                = fileQueue st @ js
                  @ [\<lparr>job_fileId = Some (v_id nf), job_userId = Some (v_userId nf)\<rparr>]"
    using res c(1) js by simp
  show "\<exists>f. f \<in> set (files (fst (postUpload E w st req))) \<and> processFile f = nf"
    using res c(3) by simp
qed

lemma publishUnpublish_updated:
  assumes "publishUnpublish E st req v = (st1, Inr (c, uf))" and "v_type uf = ''image''"
  shows "fileQueue st1
         = fileQueue st @ [\<lparr>job_fileId = Some (v_id uf), job_userId = Some (v_userId uf)\<rparr>]"
  using assms
  by (auto simp: publishUnpublish_def addFileQueue_def processFile_def Let_def
           split: option.splits if_splits)

lemma putPublish_updated:
  assumes "snd (putPublish E st req) = Reply c (FileDoc uf)" and "v_type uf = ''image''"
  shows "fileQueue (fst (putPublish E st req))
         = fileQueue st @ [\<lparr>job_fileId = Some (v_id uf), job_userId = Some (v_userId uf)\<rparr>]"
proof -
  obtain st1 r where pu: "publishUnpublish E st req True = (st1, r)"
    by (cases "publishUnpublish E st req True")
  show ?thesis
  proof (cases r)
    case (Inl e)
    with pu assms(1) show ?thesis
      by (cases e) (simp add: putPublish_def)
  next
    case (Inr d)
    obtain c1 f1 where d: "d = (c1, f1)" by (cases d)
    from pu Inr d assms(1) have f1: "f1 = uf" by (simp add: putPublish_def)
    from pu Inr d f1 have "publishUnpublish E st req True = (st1, Inr (c1, uf))" by simp
    from publishUnpublish_updated [OF this assms(2)] pu Inr d show ?thesis
      by (simp add: putPublish_def)
  qed
qed

lemma putUnpublish_updated:
  assumes "snd (putUnpublish E st req) = Reply c (FileDoc uf)" and "v_type uf = ''image''"
  shows "fileQueue (fst (putUnpublish E st req))
         = fileQueue st @ [\<lparr>job_fileId = Some (v_id uf), job_userId = Some (v_userId uf)\<rparr>]"
proof -
  obtain st1 r where pu: "publishUnpublish E st req False = (st1, r)"
    by (cases "publishUnpublish E st req False")
  show ?thesis
  proof (cases r)
    case (Inl e)
    with pu assms(1) show ?thesis
      by (cases e) (simp add: putUnpublish_def)
  next
    case (Inr d)
    obtain c1 f1 where d: "d = (c1, f1)" by (cases d)
    from pu Inr d assms(1) have f1: "f1 = uf" by (simp add: putUnpublish_def)
    from pu Inr d f1 have "publishUnpublish E st req False = (st1, Inr (c1, uf))" by simp
    from publishUnpublish_updated [OF this assms(2)] pu Inr d show ?thesis
      by (simp add: putUnpublish_def)
  qed
qed

lemma postNew_created:
  assumes "snd (postNew E w st reg) = Reply 201 (UserDoc i e)"
  shows "userQueue (fst (postNew E w st reg))
         = userQueue st @ [\<lparr>job_fileId = None, job_userId = Some i\<rparr>]"
    and "\<exists>u. u \<in> set (users (fst (postNew E w st reg))) \<and> u_id u = i \<and> u_email u = e"
  using assms
  by (auto simp: postNew_def addUserQueue_def Let_def split: option.splits if_splits)

text \<open>
  C7. Whenever a file of type image is successfully created, a job carrying the id of the
  new file and the id of its owner is the last job put on the file queue; whenever a file of
  type image is successfully updated, by publishing or unpublishing it, such a job is put on
  the file queue; and after every successful registration a job carrying the id of the new
  user is put on the user queue.
\<close>

theorem thumbnail_and_welcome_jobs:
  "(snd (postUpload E w st req) = Reply 201 (FileDoc nf) \<and> v_type nf = ''image''
     \<longrightarrow> (\<exists>js. fileQueue (fst (postUpload E w st req))
                  = fileQueue st @ js
                    @ [\<lparr>job_fileId = Some (v_id nf), job_userId = Some (v_userId nf)\<rparr>])
         \<and> (\<exists>f. f \<in> set (files (fst (postUpload E w st req))) \<and> processFile f = nf))
   \<and> (snd (putPublish E st pub) = Reply c (FileDoc uf) \<and> v_type uf = ''image''
     \<longrightarrow> fileQueue (fst (putPublish E st pub))
           = fileQueue st
             @ [\<lparr>job_fileId = Some (v_id uf), job_userId = Some (v_userId uf)\<rparr>])
   \<and> (snd (putUnpublish E st unp) = Reply d (FileDoc vf) \<and> v_type vf = ''image''
     \<longrightarrow> fileQueue (fst (putUnpublish E st unp))
           = fileQueue st
             @ [\<lparr>job_fileId = Some (v_id vf), job_userId = Some (v_userId vf)\<rparr>])
   \<and> (snd (postNew E w st reg) = Reply 201 (UserDoc i e)
     \<longrightarrow> userQueue (fst (postNew E w st reg))
           = userQueue st @ [\<lparr>job_fileId = None, job_userId = Some i\<rparr>]
         \<and> (\<exists>u. u \<in> set (users (fst (postNew E w st reg))) \<and> u_id u = i \<and> u_email u = e))"
  using postUpload_created [of E w st req nf] putPublish_updated [of E st pub c uf]
    putUnpublish_updated [of E st unp d vf] postNew_created [of E w st reg i e]
  by blast

text \<open>
  Alice uploads an image, publishes her picture, unpublishes it, and Carol registers.
\<close>

theorem thumbnail_and_welcome_jobs_witness:
  "(\<exists>js. fileQueue (fst (postUpload demoEnv demoWorld demoStore
             (anon\<lparr>token := Some ''tokenA'',
                   body := noBody\<lparr>b_name := Some ''a.png'', b_type := Some ''image'',
                                  b_data := Some ''aGVsbG8=''\<rparr>\<rparr>)))
          = fileQueue demoStore @ js
            @ [\<lparr>job_fileId = Some ''0000000000000000000000c9'',
                job_userId = Some aliceId\<rparr>])
   \<and> fileQueue (fst (putPublish demoEnv demoStore
          (anon\<lparr>token := Some ''tokenA'', param_id := picId\<rparr>)))
       = fileQueue demoStore @ [\<lparr>job_fileId = Some picId, job_userId = Some aliceId\<rparr>]
   \<and> fileQueue (fst (putUnpublish demoEnv demoStore
          (anon\<lparr>token := Some ''tokenA'', param_id := picId\<rparr>)))
       = fileQueue demoStore @ [\<lparr>job_fileId = Some picId, job_userId = Some aliceId\<rparr>]
   \<and> userQueue (fst (postNew demoEnv demoWorld demoStore
          (anon\<lparr>body := noBody\<lparr>b_email := Some ''carol@example.com'',
                                b_password := Some ''pw''\<rparr>\<rparr>)))
       = userQueue demoStore
         @ [\<lparr>job_fileId = None, job_userId = Some ''0000000000000000000000c9''\<rparr>]"
proof -
  let ?up = "anon\<lparr>token := Some ''tokenA'',
                   body := noBody\<lparr>b_name := Some ''a.png'', b_type := Some ''image'',
                                  b_data := Some ''aGVsbG8=''\<rparr>\<rparr>"
  let ?pub = "anon\<lparr>token := Some ''tokenA'', param_id := picId\<rparr>"
  let ?reg = "anon\<lparr>body := noBody\<lparr>b_email := Some ''carol@example.com'',
                                    b_password := Some ''pw''\<rparr>\<rparr>"
  let ?nf = "\<lparr>v_id = ''0000000000000000000000c9'', v_userId = aliceId, v_name = ''a.png'',
              v_type = ''image'', v_isPublic = False, v_parentId = Root\<rparr>"
  let ?pf = "\<lparr>v_id = picId, v_userId = aliceId, v_name = ''pic.png'',
              v_type = ''image'', v_isPublic = True, v_parentId = Parent docsId\<rparr>"
  let ?uf = "\<lparr>v_id = picId, v_userId = aliceId, v_name = ''pic.png'',
              v_type = ''image'', v_isPublic = False, v_parentId = Parent docsId\<rparr>"
  have h1: "snd (postUpload demoEnv demoWorld demoStore ?up) = Reply 201 (FileDoc ?nf)
            \<and> v_type ?nf = ''image''"
    by (simp add: postUpload_def model_defs demo_defs)
  have h2: "snd (putPublish demoEnv demoStore ?pub) = Reply 200 (FileDoc ?pf)
            \<and> v_type ?pf = ''image''"
    by (simp add: putPublish_def model_defs demo_defs)
  have h3: "snd (putUnpublish demoEnv demoStore ?pub) = Reply 200 (FileDoc ?uf)
            \<and> v_type ?uf = ''image''"
    by (simp add: putUnpublish_def model_defs demo_defs)
  have h4: "snd (postNew demoEnv demoWorld demoStore ?reg)
            = Reply 201 (UserDoc ''0000000000000000000000c9'' ''carol@example.com'')"
    by (simp add: postNew_def model_defs demo_defs)
  note a = thumbnail_and_welcome_jobs
      [where E = demoEnv and w = demoWorld and st = demoStore and req = ?up and nf = ?nf,
       THEN conjunct1, THEN mp, OF h1, THEN conjunct1, simplified]
  note b = thumbnail_and_welcome_jobs
      [where E = demoEnv and st = demoStore and pub = ?pub and c = 200 and uf = ?pf,
       THEN conjunct2, THEN conjunct1, THEN mp, OF h2, simplified]
  note c = thumbnail_and_welcome_jobs
      [where E = demoEnv and st = demoStore and unp = ?pub and d = 200 and vf = ?uf,
       THEN conjunct2, THEN conjunct2, THEN conjunct1, THEN mp, OF h3, simplified]
  note d = thumbnail_and_welcome_jobs
      [where E = demoEnv and w = demoWorld and st = demoStore and reg = ?reg
         and i = "''0000000000000000000000c9''" and e = "''carol@example.com''",
       THEN conjunct2, THEN conjunct2, THEN conjunct2, THEN mp, OF h4, THEN conjunct1]
  from a b c d show ?thesis by simp
qed

section \<open>Registration\<close>

text \<open>
  C9, as amended. A registration whose email already exists in the users collection fails
  with a client error and leaves the store as it was, so no user is inserted; when the
  request carries a password the error is \<^verbatim>\<open>Already exist\<close>.
\<close>

theorem postNew_duplicate_email:
  assumes "b_email (body req) = Some email"
    and "find (\<lambda>u. u_email u = email) (users st) = Some existing"
  shows "fst (postNew E w st req) = st
       \<and> (\<exists>m. snd (postNew E w st req) = Reply 400 (ErrorObj m))
       \<and> (email \<noteq> [] \<and> \<not> falsy (b_password (body req))
            \<longrightarrow> snd (postNew E w st req) = Reply 400 (ErrorObj ''Already exist''))"
  using assms by (auto simp: postNew_def falsy_def split: option.splits)

text \<open>A registration with the email of Bob.\<close>

theorem postNew_duplicate_email_witness:
  "postNew demoEnv demoWorld demoStore
     (anon\<lparr>body := noBody\<lparr>b_email := Some ''bob@example.com'', b_password := Some ''pw''\<rparr>\<rparr>)
   = (demoStore, Reply 400 (ErrorObj ''Already exist''))"
proof -
  let ?r = "anon\<lparr>body := noBody\<lparr>b_email := Some ''bob@example.com'',
                                  b_password := Some ''pw''\<rparr>\<rparr>"
  have 1: "b_email (body ?r) = Some ''bob@example.com''" by (simp add: demo_defs)
  have 2: "find (\<lambda>u. u_email u = ''bob@example.com'') (users demoStore)
           = Some \<lparr>u_id = bobId, u_email = ''bob@example.com'', u_password = ''sha1:pw2''\<rparr>"
    by (simp add: demo_defs)
  have 3: "''bob@example.com'' \<noteq> [] \<and> \<not> falsy (b_password (body ?r))"
    by (simp add: falsy_def demo_defs)
  from 3 postNew_duplicate_email [OF 1 2, of demoEnv demoWorld]
  show ?thesis by (simp add: prod_eq_iff)
qed

text \<open>
  C9 as stated fails: a registration with the email of Bob and without a password is
  answered with \<^verbatim>\<open>Missing password\<close>, the check that runs first.
\<close>

theorem postNew_duplicate_email_counterexample:
  "find (\<lambda>u. u_email u = ''bob@example.com'') (users demoStore)
     = Some \<lparr>u_id = bobId, u_email = ''bob@example.com'', u_password = ''sha1:pw2''\<rparr>
   \<and> postNew demoEnv demoWorld demoStore
        (anon\<lparr>body := noBody\<lparr>b_email := Some ''bob@example.com''\<rparr>\<rparr>)
       = (demoStore, Reply 400 (ErrorObj ''Missing password''))"
  by (simp add: postNew_def model_defs demo_defs)

section \<open>Jobs after a failed save\<close>

text \<open>
  C10. When the type of the payload is image and the save step fails, \<^verbatim>\<open>postUpload\<close> puts
  a job that carries only the id of the user on the file queue and then sends the error of
  the save step; an upload whose type is not image puts no job on the file queue, so a failed
  one does not.
\<close>

theorem postUpload_failed_save_jobs:
  "(getUserIdAndKey st req = Some uid \<and> uid \<noteq> [] \<and> isValidId E (Some uid)
      \<and> getUser st uid = Some u
      \<and> validateBody st req = Inr fp \<and> \<not> parentIdInvalid E fp
      \<and> saveFile E w st uid fp (FOLDER_PATH E) = (st2, Inl (code, err))
      \<and> b_type (body req) = Some ''image''
     \<longrightarrow> postUpload E w st req
           = (addFileQueue \<lparr>job_fileId = None, job_userId = Some uid\<rparr> st2,
              Reply code (Plain err))
         \<and> fileQueue (fst (postUpload E w st req))
           = fileQueue st @ [\<lparr>job_fileId = None, job_userId = Some uid\<rparr>])
   \<and> (b_type (body req) \<noteq> Some ''image''
     \<longrightarrow> fileQueue (fst (postUpload E w st req)) = fileQueue st)"
proof (intro conjI impI)
  assume h: "getUserIdAndKey st req = Some uid \<and> uid \<noteq> [] \<and> isValidId E (Some uid)
      \<and> getUser st uid = Some u
      \<and> validateBody st req = Inr fp \<and> \<not> parentIdInvalid E fp
      \<and> saveFile E w st uid fp (FOLDER_PATH E) = (st2, Inl (code, err))
      \<and> b_type (body req) = Some ''image''"
  then have auth: "getUserIdAndKey st req = Some uid" "uid \<noteq> []" "isValidId E (Some uid)"
    "getUser st uid = Some u" by simp_all
  from h show r: "postUpload E w st req
           = (addFileQueue \<lparr>job_fileId = None, job_userId = Some uid\<rparr> st2,
              Reply code (Plain err))"
    unfolding postUpload_authenticated [OF auth] by simp
  from h have "fileQueue st2 = fileQueue st"
    using saveFile_fileQueue [of E w st uid fp "FOLDER_PATH E"] by simp
  with r show "fileQueue (fst (postUpload E w st req))
           = fileQueue st @ [\<lparr>job_fileId = None, job_userId = Some uid\<rparr>]"
    by simp
next
  assume n: "b_type (body req) \<noteq> Some ''image''"
  have fp: "fp_type fp \<noteq> ''image''" if "validateBody st req = Inr fp" for fp
    using that n by (auto simp: validateBody_def Let_def split: option.splits if_splits parent.splits)
  show "fileQueue (fst (postUpload E w st req)) = fileQueue st"
  proof (cases "getUserIdAndKey st req")
    case None
    with n show ?thesis by (simp add: postUpload_def Let_def)
  next
    case (Some uid)
    show ?thesis
    proof (cases "validateBody st req")
      case (Inl m)
      with Some n show ?thesis by (simp add: postUpload_def Let_def split: option.splits)
    next
      case (Inr p)
      from fp [OF Inr] have t: "fp_type p \<noteq> ''image''" .
      obtain s2 r where sf: "saveFile E w st uid p (FOLDER_PATH E) = (s2, r)"
        by (cases "saveFile E w st uid p (FOLDER_PATH E)")
      then have q: "fileQueue s2 = fileQueue st"
        using saveFile_fileQueue [of E w st uid p "FOLDER_PATH E"] by simp
      from Some Inr n t sf q show ?thesis
        by (cases r) (auto simp: postUpload_def Let_def split: option.splits)
    qed
  qed
qed


text \<open>
  The insertion of the metadata record fails for an image and for a text file of Alice.
\<close>

theorem postUpload_failed_save_jobs_witness:
  "fileQueue (fst (postUpload demoEnv (demoWorld\<lparr>w_fault := InsertFault\<rparr>) demoStore
       (anon\<lparr>token := Some ''tokenA'',
             body := noBody\<lparr>b_name := Some ''a.png'', b_type := Some ''image'',
                            b_data := Some ''aGVsbG8=''\<rparr>\<rparr>)))
     = [\<lparr>job_fileId = None, job_userId = Some aliceId\<rparr>]
   \<and> snd (postUpload demoEnv (demoWorld\<lparr>w_fault := InsertFault\<rparr>) demoStore
       (anon\<lparr>token := Some ''tokenA'',
             body := noBody\<lparr>b_name := Some ''a.png'', b_type := Some ''image'',
                            b_data := Some ''aGVsbG8=''\<rparr>\<rparr>))
     = Reply 400 (Plain ''save failed'')
   \<and> fileQueue (fst (postUpload demoEnv (demoWorld\<lparr>w_fault := InsertFault\<rparr>) demoStore
       (anon\<lparr>token := Some ''tokenA'',
             body := noBody\<lparr>b_name := Some ''a.txt'', b_type := Some ''file'',
                            b_data := Some ''aGVsbG8=''\<rparr>\<rparr>)))
     = []
   \<and> snd (postUpload demoEnv (demoWorld\<lparr>w_fault := InsertFault\<rparr>) demoStore
       (anon\<lparr>token := Some ''tokenA'',
             body := noBody\<lparr>b_name := Some ''a.txt'', b_type := Some ''file'',
                            b_data := Some ''aGVsbG8=''\<rparr>\<rparr>))
     = Reply 400 (Plain ''save failed'')"
proof -
  let ?w = "demoWorld\<lparr>w_fault := InsertFault\<rparr>"
  let ?img = "anon\<lparr>token := Some ''tokenA'',
                    body := noBody\<lparr>b_name := Some ''a.png'', b_type := Some ''image'',
                                   b_data := Some ''aGVsbG8=''\<rparr>\<rparr>"
  let ?txt = "anon\<lparr>token := Some ''tokenA'',
                    body := noBody\<lparr>b_name := Some ''a.txt'', b_type := Some ''file'',
                                   b_data := Some ''aGVsbG8=''\<rparr>\<rparr>"
  let ?alice = "\<lparr>u_id = aliceId, u_email = ''alice@example.com'', u_password = ''sha1:pw''\<rparr>"
  let ?fp = "\<lparr>fp_name = ''a.png'', fp_type = ''image'', fp_parentId = Root,
              fp_isPublic = False, fp_data = Some ''aGVsbG8=''\<rparr>"
  let ?st2 = "demoStore\<lparr>disk := disk demoStore
                @ [((''/tmp/files_manager/u9'', None), ''aGVsbG8='')]\<rparr>"
  have h: "getUserIdAndKey demoStore ?img = Some aliceId \<and> aliceId \<noteq> []
      \<and> isValidId demoEnv (Some aliceId)
      \<and> getUser demoStore aliceId = Some ?alice
      \<and> validateBody demoStore ?img = Inr ?fp \<and> \<not> parentIdInvalid demoEnv ?fp
      \<and> saveFile demoEnv ?w demoStore aliceId ?fp (FOLDER_PATH demoEnv)
          = (?st2, Inl (400, ''save failed''))
      \<and> b_type (body ?img) = Some ''image''"
    by (simp add: model_defs demo_defs)
  have n: "b_type (body ?txt) \<noteq> Some ''image''" by (simp add: demo_defs)
  note a = postUpload_failed_save_jobs
      [of demoStore ?img aliceId demoEnv ?alice ?fp ?w ?st2 400 "''save failed''",
       THEN conjunct1, THEN mp, OF h]
  note b = postUpload_failed_save_jobs
      [of demoStore ?txt _ demoEnv _ _ ?w, THEN conjunct2, THEN mp, OF n]
  have c: "snd (postUpload demoEnv ?w demoStore ?txt) = Reply 400 (Plain ''save failed'')"
    by (simp add: postUpload_def model_defs demo_defs)
  have q: "fileQueue demoStore = []" by (simp add: demoStore_def)
  from a have a1: "snd (postUpload demoEnv ?w demoStore ?img) = Reply 400 (Plain ''save failed'')"
    by simp
  from a q have a2: "fileQueue (fst (postUpload demoEnv ?w demoStore ?img))
                     = [\<lparr>job_fileId = None, job_userId = Some aliceId\<rparr>]"
    by simp
  from b q have b1: "fileQueue (fst (postUpload demoEnv ?w demoStore ?txt)) = []"
    by simp
  from a2 a1 b1 c show ?thesis by (intro conjI)
qed

end
